theory Spec2Isabelle
  imports Complex_Main "HOL-Library.AList" "HOL-Library.Multiset"
begin

section \<open>Message envelopes (communication/message\_types.py)\<close>

text \<open>
  \<^verbatim>\<open>Task\<close>, \<^verbatim>\<open>Bid\<close> and \<^verbatim>\<open>Message\<close> are dataclasses. Wall-clock
  times and bid values are Python floats; they are only added, subtracted and compared,
  and are modelled as reals. Record fields of a bid that would clash with a field of the
  agent or of the task carry the prefix \<open>b_\<close>.
\<close>

record task =
  task_id :: string
  priority :: int
  estimated_time :: real
  description :: string
  created_at :: real

record bid =
  b_agent_id :: string
  b_task_id :: string
  bid_value :: real
  b_current_load :: int
  estimated_completion_time :: real

text \<open>
  \<^verbatim>\<open>Message.to_dict()\<close> writes the \<^verbatim>\<open>msg_type\<close> string next to a payload
  dict whose keys depend on it: \<^verbatim>\<open>{'task': ..}\<close> for a task broadcast,
  \<^verbatim>\<open>{'bid': ..}\<close> for a bid and
  \<^verbatim>\<open>{'task': .., 'agent_id': .., 'winning_bid': ..}\<close> for an allocation. The pair
  is one tagged union; every other message type (heartbeat, agent event, ...) is
  \<open>OtherMessage\<close> with its type string.
\<close>

datatype body =
    TaskBroadcast task
  | BidMessage bid
  | TaskAllocation task string bid
  | OtherMessage string

fun msg_type :: "body \<Rightarrow> string" where
  "msg_type (TaskBroadcast t) = ''task_broadcast''"
| "msg_type (BidMessage b) = ''bid''"
| "msg_type (TaskAllocation t a w) = ''task_allocation''"
| "msg_type (OtherMessage s) = s"

record envelope =
  msg_id :: string
  sender_id :: string
  body :: body
  timestamp :: real
  requires_ack :: bool

text \<open>Python's truth value of a string: the empty string is false.\<close>

definition truthy :: "string \<Rightarrow> bool" where
  "truthy s = (s \<noteq> [])"

section \<open>The agent (agents/agent.py)\<close>

text \<open>
  \<^verbatim>\<open>running_tasks\<close> maps a task id to its start time and the state of its stop
  flag (a \<^verbatim>\<open>threading.Event\<close>). The configuration constants
  \<^verbatim>\<open>heartbeat_interval\<close> and \<^verbatim>\<open>stream_interval\<close> and the accumulators
  \<^verbatim>\<open>total_cpu_time\<close> and \<^verbatim>\<open>total_memory_used\<close> are read or written only by the
  background loops and by \<^verbatim>\<open>execute_task\<close>, which are not part of this model.
\<close>

record running_info =
  start_time :: real
  stop_flag :: bool

record agent =
  agent_id :: string
  current_load :: int
  max_load :: int
  assigned_tasks :: "task list"
  completed_tasks :: "task list"
  running_tasks :: "(string \<times> running_info) list"
  allocated_task_ids :: "string set"
  processed_message_ids :: "string set"
  bid_task_ids :: "string set"
  is_alive :: bool
  is_crashed :: bool
  auto_recover_enabled :: bool
  auto_recover_delay :: real
  crash_time :: "real option"
  last_heartbeat :: real

text \<open>
  What a handler does besides changing the agent: every call of
  \<^verbatim>\<open>broker.publish\<close> and every thread it starts, in program order. The fresh
  \<^verbatim>\<open>uuid4\<close> and the timestamp of an outgoing message are not recorded.
\<close>

datatype effect =
    SendAck string
  | SendBid bid
  | SendHeartbeat string int int
  | EmitEvent string
  | SpawnExecute task

text \<open>\<^verbatim>\<open>Agent.__init__\<close>, without the subscriptions and the two background threads.\<close>

definition agent_init :: "string \<Rightarrow> real \<Rightarrow> agent" where
  "agent_init aid now =
     \<lparr> agent_id = aid, current_load = 0, max_load = 5, assigned_tasks = [],
       completed_tasks = [], running_tasks = [], allocated_task_ids = {},
       processed_message_ids = {}, bid_task_ids = {}, is_alive = True,
       is_crashed = False, auto_recover_enabled = True, auto_recover_delay = 10,
       crash_time = None, last_heartbeat = now \<rparr>"

text \<open>
  \<^verbatim>\<open>send_ack\<close> is called as \<^verbatim>\<open>if message_data.get('requires_ack'): self.send_ack(..)\<close>
  at every exit of the two handlers that acknowledges.
\<close>

definition ack_if_required :: "envelope \<Rightarrow> effect list" where
  "ack_if_required e = (if requires_ack e then [SendAck (msg_id e)] else [])"

text \<open>
  \<^verbatim>\<open>send_bid\<close>: \<open>r\<close> is the value drawn by \<^verbatim>\<open>random.uniform(0, 5)\<close>.
\<close>

definition send_bid :: "agent \<Rightarrow> task \<Rightarrow> real \<Rightarrow> effect" where
  "send_bid a t r =
     SendBid \<lparr> b_agent_id = agent_id a, b_task_id = task_id t,
               bid_value = of_int (current_load a * 10) + r,
               b_current_load = current_load a,
               estimated_completion_time = estimated_time t \<rparr>"

definition handle_task_broadcast :: "agent \<Rightarrow> envelope \<Rightarrow> real \<Rightarrow> agent \<times> effect list" where
  "handle_task_broadcast a e r =
     (case body e of
        TaskBroadcast t \<Rightarrow>
          if truthy (msg_id e) \<and> msg_id e \<in> processed_message_ids a then (a, [])
          else
            let a1 = (if truthy (msg_id e)
                      then a\<lparr>processed_message_ids := insert (msg_id e) (processed_message_ids a)\<rparr>
                      else a)
            in if is_crashed a1 then (a1, ack_if_required e)
               else if task_id t \<in> bid_task_ids a1 \<or> task_id t \<in> allocated_task_ids a1
               then (a1, ack_if_required e)
               else
                 let a2 = a1\<lparr>bid_task_ids := insert (task_id t) (bid_task_ids a1)\<rparr>
                 in (a2, ack_if_required e @
                          (if current_load a2 < max_load a2 then [send_bid a2 t r] else []))
      | _ \<Rightarrow> (a, []))"

definition handle_task_allocation :: "agent \<Rightarrow> envelope \<Rightarrow> agent \<times> effect list" where
  "handle_task_allocation a e =
     (case body e of
        TaskAllocation t allocated_agent winning_bid \<Rightarrow>
          if allocated_agent \<noteq> agent_id a then (a, [])
          else if truthy (msg_id e) \<and> msg_id e \<in> processed_message_ids a then (a, [])
          else if task_id t \<in> allocated_task_ids a then (a, ack_if_required e)
          else
            let a1 = a\<lparr>processed_message_ids :=
                          (if truthy (msg_id e) then insert (msg_id e) (processed_message_ids a)
                           else processed_message_ids a),
                        allocated_task_ids := insert (task_id t) (allocated_task_ids a),
                        assigned_tasks := assigned_tasks a @ [t],
                        current_load := current_load a + 1\<rparr>
            in if is_crashed a1
               then (a1\<lparr>allocated_task_ids := allocated_task_ids a1 - {task_id t},
                         current_load := current_load a1 - 1\<rparr>,
                     ack_if_required e)
               else (a1, ack_if_required e @ [SpawnExecute t])
      | _ \<Rightarrow> (a, []))"

text \<open>
  \<^verbatim>\<open>send_heartbeat\<close> publishes the status and stores the time of sending.
\<close>

definition heartbeat_status :: "agent \<Rightarrow> string" where
  "heartbeat_status a =
     (if current_load a = 0 then ''idle''
      else if current_load a < max_load a then ''busy'' else ''overloaded'')"

definition send_heartbeat :: "agent \<Rightarrow> real \<Rightarrow> agent \<times> effect list" where
  "send_heartbeat a now =
     (a\<lparr>last_heartbeat := now\<rparr>,
      [SendHeartbeat (heartbeat_status a) (current_load a) (max_load a)])"

text \<open>
  \<^verbatim>\<open>crash(auto_recover_after)\<close>: \<open>None\<close> keeps the recovery settings, \<open>Some 0\<close>
  disables auto-recovery, any other value is the new delay.
\<close>

definition crash :: "agent \<Rightarrow> real option \<Rightarrow> real \<Rightarrow> agent \<times> effect list" where
  "crash a auto_recover_after now =
     (let a1 = a\<lparr>is_crashed := True, crash_time := Some now,
                  running_tasks :=
                    map (\<lambda>(tid, info). (tid, info\<lparr>stop_flag := True\<rparr>)) (running_tasks a)\<rparr>;
          a2 = (case auto_recover_after of
                  None \<Rightarrow> a1
                | Some d \<Rightarrow> if d = 0 then a1\<lparr>auto_recover_enabled := False\<rparr>
                            else a1\<lparr>auto_recover_delay := d\<rparr>)
      in (a2, [EmitEvent ''agent_crashed'']))"

text \<open>\<^verbatim>\<open>recover()\<close> returns the new agent, what it published, and its return value.\<close>

definition recover :: "agent \<Rightarrow> real \<Rightarrow> agent \<times> effect list \<times> bool" where
  "recover a now =
     (if is_crashed a then
        let a1 = a\<lparr>is_crashed := False, crash_time := None, last_heartbeat := now,
                    bid_task_ids := {}\<rparr>;
            (a2, hb) = send_heartbeat a1 now
        in (a2, EmitEvent ''agent_recovered'' # hb, True)
      else (a, [], False))"

text \<open>
  One call of the agent from outside, for stating properties of sequences of calls:
  a delivery on the \<^verbatim>\<open>tasks\<close> channel, a delivery on the
  \<^verbatim>\<open>allocations\<close> channel, \<^verbatim>\<open>crash\<close> or \<^verbatim>\<open>recover\<close>.
\<close>

datatype agent_op =
    DeliverBroadcast envelope real
  | DeliverAllocation envelope
  | Crash "real option" real
  | Recover real

fun agent_step :: "agent \<Rightarrow> agent_op \<Rightarrow> agent \<times> effect list" where
  "agent_step a (DeliverBroadcast e r) = handle_task_broadcast a e r"
| "agent_step a (DeliverAllocation e) = handle_task_allocation a e"
| "agent_step a (Crash d now) = crash a d now"
| "agent_step a (Recover now) = (case recover a now of (a', effs, ret) \<Rightarrow> (a', effs))"

fun run_agent :: "agent \<Rightarrow> agent_op list \<Rightarrow> agent \<times> effect list" where
  "run_agent a [] = (a, [])"
| "run_agent a (op # ops) =
     (case agent_step a op of
        (a1, effs1) \<Rightarrow> (case run_agent a1 ops of (a2, effs2) \<Rightarrow> (a2, effs1 @ effs2)))"

fun op_msg_id :: "agent_op \<Rightarrow> string option" where
  "op_msg_id (DeliverBroadcast e r) = Some (msg_id e)"
| "op_msg_id (DeliverAllocation e) = Some (msg_id e)"
| "op_msg_id (Crash d now) = None"
| "op_msg_id (Recover now) = None"

fun is_bid_effect :: "effect \<Rightarrow> bool" where
  "is_bid_effect (SendBid b) = True"
| "is_bid_effect _ = False"

section \<open>The in-memory broker (communication/broker.py)\<close>

text \<open>
  \<^verbatim>\<open>pending_acks\<close> is a dict from a message id to an info dict that
  \<^verbatim>\<open>check_timeouts\<close> mutates in place while \<^verbatim>\<open>publish\<close> installs a new one,
  so the info dicts live in a store of their own: \<open>info_store\<close> holds every info dict
  ever created, an address is an index into it, and \<open>pending_acks\<close> maps message
  ids to addresses, in insertion order as a Python dict does.
  \<^verbatim>\<open>self.lock\<close> is a \<^verbatim>\<open>threading.Lock\<close>, which is not re-entrant:
  \<open>lock_held\<close> says whether it is taken, and an operation that reaches
  \<^verbatim>\<open>with self.lock\<close> while it is taken blocks for ever, which is the result
  \<open>None\<close>. Subscriber lists and listener threads are not part of this model; a queued
  message is kept as the envelope itself instead of its JSON text.
\<close>

record ack_info =
  channel :: string
  message :: envelope
  sent_at :: real
  retries :: int

record broker =
  running :: bool
  lock_held :: bool
  pending_acks :: "(string \<times> nat) list"
  info_store :: "ack_info list"
  message_queues :: "string \<Rightarrow> envelope list"
  ack_timeout :: real
  max_retries :: int

definition broker_init :: broker where
  "broker_init =
     \<lparr> running = False, lock_held = False, pending_acks = [], info_store = [],
       message_queues = (\<lambda>ch. []), ack_timeout = 5, max_retries = 3 \<rparr>"

text \<open>\<^verbatim>\<open>listen()\<close>, without the timeout thread it starts.\<close>

definition listen :: "broker \<Rightarrow> broker" where
  "listen b = b\<lparr>running := True\<rparr>"

definition acquire :: "broker \<Rightarrow> broker option" where
  "acquire b = (if lock_held b then None else Some (b\<lparr>lock_held := True\<rparr>))"

definition release :: "broker \<Rightarrow> broker" where
  "release b = b\<lparr>lock_held := False\<rparr>"

text \<open>The info dict that the table holds for a message id, if any.\<close>

definition pending_info_of :: "broker \<Rightarrow> string \<Rightarrow> ack_info option" where
  "pending_info_of b mid =
     (case map_of (pending_acks b) mid of
        None \<Rightarrow> None
      | Some r \<Rightarrow> if r < length (info_store b) then Some (info_store b ! r) else None)"

text \<open>
  \<^verbatim>\<open>publish(channel, message, reliable)\<close>; \<open>now\<close> is the value of
  \<^verbatim>\<open>time.time()\<close>. A reliable message that requires an ACK gets a new info dict
  with \<^verbatim>\<open>retries = 0\<close> under its message id, replacing whatever the table held
  for that id.
\<close>

definition publish :: "broker \<Rightarrow> string \<Rightarrow> envelope \<Rightarrow> bool \<Rightarrow> real \<Rightarrow> broker option" where
  "publish b ch m reliable now =
     (if \<not> running b then Some b
      else
        case (if reliable \<and> requires_ack m then
                (case acquire b of
                   None \<Rightarrow> None
                 | Some b1 \<Rightarrow>
                     Some (release
                       (b1\<lparr>pending_acks :=
                              AList.update (msg_id m) (length (info_store b1)) (pending_acks b1),
                            info_store :=
                              info_store b1 @
                                [\<lparr>channel = ch, message = m, sent_at = now, retries = 0\<rparr>]\<rparr>)))
              else Some b) of
          None \<Rightarrow> None
        | Some b2 \<Rightarrow>
            Some (b2\<lparr>message_queues := (message_queues b2)(ch := message_queues b2 ch @ [m])\<rparr>))"

definition handle_ack :: "broker \<Rightarrow> string \<Rightarrow> broker option" where
  "handle_ack b mid =
     (case acquire b of
        None \<Rightarrow> None
      | Some b1 \<Rightarrow>
          Some (release
            (if map_of (pending_acks b1) mid \<noteq> None
             then b1\<lparr>pending_acks := AList.delete mid (pending_acks b1)\<rparr>
             else b1)))"

text \<open>
  The body of the loop of \<^verbatim>\<open>check_timeouts\<close> over the snapshot
  \<^verbatim>\<open>list(self.pending_acks.items())\<close>, run with the lock taken. \<open>info\<close> is the
  dict at address \<open>r\<close>; the two assignments after \<^verbatim>\<open>self.publish\<close> write to
  that address, whatever the table holds by then. The clock read inside
  \<^verbatim>\<open>publish\<close> is taken at the same instant \<open>ct\<close>.
\<close>

fun timeouts_loop :: "(string \<times> nat) list \<Rightarrow> real \<Rightarrow> broker \<Rightarrow> broker option" where
  "timeouts_loop [] ct b = Some b"
| "timeouts_loop ((mid, r) # rest) ct b =
     (let info = info_store b ! r
      in if ct - sent_at info > ack_timeout b then
           if retries info < max_retries b then
             (case publish b (channel info) (message info) True ct of
                None \<Rightarrow> None
              | Some b1 \<Rightarrow>
                  let i1 = info_store b1 ! r
                  in timeouts_loop rest ct
                       (b1\<lparr>info_store :=
                              (info_store b1)[r := i1\<lparr>retries := retries i1 + 1, sent_at := ct\<rparr>]\<rparr>))
           else timeouts_loop rest ct (b\<lparr>pending_acks := AList.delete mid (pending_acks b)\<rparr>)
         else timeouts_loop rest ct b)"

definition check_timeouts :: "broker \<Rightarrow> real \<Rightarrow> broker option" where
  "check_timeouts b current_time =
     (if \<not> running b then Some b
      else
        case acquire b of
          None \<Rightarrow> None
        | Some b1 \<Rightarrow> map_option release (timeouts_loop (pending_acks b1) current_time b1))"

section \<open>The coordinator (coordinator.py)\<close>

text \<open>
  The dicts of the coordinator are maps. \<^verbatim>\<open>agent_streams\<close>,
  \<^verbatim>\<open>processed_events\<close> and the monitoring settings are used by neither
  \<^verbatim>\<open>handle_bid\<close> nor \<^verbatim>\<open>allocate_task\<close> and are left out. An entry of the
  activity log keeps its type and the fields that the modelled operations write.
\<close>

record pending_info =
  p_task :: task
  bids :: "bid list"
  broadcast_at :: real

record allocation_record =
  a_task :: task
  a_agent :: string
  a_bid_value :: real
  allocated_at :: real

datatype activity =
    TaskBroadcastActivity string int string real
  | BidActivity string string real real
  | AllocationActivity string string real nat real
  | OtherActivity string real

record coordinator =
  tasks :: "task list"
  pending_tasks :: "string \<rightharpoonup> pending_info"
  allocated_tasks :: "allocation_record list"
  agent_tasks :: "string \<rightharpoonup> string list"
  agent_heartbeats :: "string \<rightharpoonup> real"
  failed_agents :: "string set"
  activity_log :: "activity list"
  max_activity_log :: nat
  task_bids :: "string \<rightharpoonup> bid list"
  completed_task_ids :: "string set"
  cancelled_task_ids :: "string set"

definition coordinator_init :: coordinator where
  "coordinator_init =
     \<lparr> tasks = [], pending_tasks = Map.empty, allocated_tasks = [], agent_tasks = Map.empty,
       agent_heartbeats = Map.empty, failed_agents = {}, activity_log = [],
       max_activity_log = 100, task_bids = Map.empty, completed_task_ids = {},
       cancelled_task_ids = {} \<rparr>"

text \<open>\<^verbatim>\<open>_log_activity\<close>: append, then \<^verbatim>\<open>pop(0)\<close> when the log is too long.\<close>

definition log_activity :: "coordinator \<Rightarrow> activity \<Rightarrow> coordinator" where
  "log_activity c act =
     (let lg = activity_log c @ [act]
      in c\<lparr>activity_log := (if length lg > max_activity_log c then tl lg else lg)\<rparr>)"

text \<open>
  \<^verbatim>\<open>broadcast_task\<close>, without the timer thread that calls \<^verbatim>\<open>allocate_task\<close>
  two seconds later; \<open>new_id\<close> is the fresh \<^verbatim>\<open>uuid4\<close> of the message.
\<close>

definition broadcast_task ::
  "coordinator \<Rightarrow> task \<Rightarrow> bool \<Rightarrow> real \<Rightarrow> string
     \<Rightarrow> coordinator \<times> (string \<times> envelope \<times> bool) list" where
  "broadcast_task c t reliable now new_id =
     (let m = \<lparr> msg_id = new_id, sender_id = ''coordinator'', body = TaskBroadcast t,
                timestamp = now, requires_ack = reliable \<rparr>;
          c1 = c\<lparr>tasks := tasks c @ [t],
                 pending_tasks := (pending_tasks c)(task_id t \<mapsto>
                   \<lparr> p_task = t, bids = [], broadcast_at = now \<rparr>)\<rparr>
      in (log_activity c1 (TaskBroadcastActivity (task_id t) (priority t) (description t) now),
          [(''tasks'', m, reliable)]))"

definition handle_bid :: "coordinator \<Rightarrow> envelope \<Rightarrow> real \<Rightarrow> coordinator" where
  "handle_bid c e now =
     (case body e of
        BidMessage bid_data \<Rightarrow>
          (case pending_tasks c (b_task_id bid_data) of
             None \<Rightarrow> c
           | Some info \<Rightarrow>
               if filter (\<lambda>b. b_agent_id b = b_agent_id bid_data) (bids info) \<noteq> [] then c
               else
                 log_activity
                   (c\<lparr>pending_tasks :=
                        (pending_tasks c)(b_task_id bid_data \<mapsto>
                           info\<lparr>bids := bids info @ [bid_data]\<rparr>)\<rparr>)
                   (BidActivity (b_agent_id bid_data) (b_task_id bid_data)
                      (bid_value bid_data) now))
      | _ \<Rightarrow> c)"

text \<open>
  \<^verbatim>\<open>_send_allocation\<close>; \<open>new_id\<close> is the fresh \<^verbatim>\<open>uuid4\<close> of the message. The
  second component is the call of \<^verbatim>\<open>broker.publish\<close>: channel, message and the
  \<^verbatim>\<open>reliable\<close> flag.
\<close>

definition send_allocation ::
  "coordinator \<Rightarrow> task \<Rightarrow> string \<Rightarrow> bid \<Rightarrow> nat \<Rightarrow> real \<Rightarrow> string
     \<Rightarrow> coordinator \<times> (string \<times> envelope \<times> bool) list" where
  "send_allocation c t aid winning_bid total_bids now new_id =
     (let m = \<lparr> msg_id = new_id, sender_id = ''coordinator'',
                body = TaskAllocation t aid winning_bid, timestamp = now,
                requires_ack = True \<rparr>;
          c1 = c\<lparr>allocated_tasks := allocated_tasks c @
                   [\<lparr> a_task = t, a_agent = aid, a_bid_value = bid_value winning_bid,
                      allocated_at = now \<rparr>]\<rparr>;
          c2 = c1\<lparr>agent_tasks := (agent_tasks c1)(aid \<mapsto>
                   (case agent_tasks c1 aid of None \<Rightarrow> [] | Some ts \<Rightarrow> ts) @ [task_id t])\<rparr>
      in (log_activity c2
            (AllocationActivity (task_id t) aid (bid_value winning_bid) total_bids now),
          [(''allocations'', m, True)]))"

text \<open>
  \<^verbatim>\<open>allocate_task\<close>. Python's \<^verbatim>\<open>sorted\<close> is a stable sort by the key, as
  \<open>sort_key\<close> is. \<^verbatim>\<open>sorted_bids[0]\<close> is read only when the list is not empty.
\<close>

definition allocate_task ::
  "coordinator \<Rightarrow> string \<Rightarrow> real \<Rightarrow> string \<Rightarrow> coordinator \<times> (string \<times> envelope \<times> bool) list" where
  "allocate_task c tid now new_id =
     (case pending_tasks c tid of
        None \<Rightarrow> (c, [])
      | Some task_info \<Rightarrow>
          if tid \<in> completed_task_ids c
          then (c\<lparr>pending_tasks := (pending_tasks c)(tid := None)\<rparr>, [])
          else if tid \<in> cancelled_task_ids c
          then (c\<lparr>pending_tasks := (pending_tasks c)(tid := None)\<rparr>, [])
          else
            let valid_bids = filter (\<lambda>b. b_agent_id b \<notin> failed_agents c) (bids task_info)
            in if valid_bids = [] then
                 (if bids task_info \<noteq> [] then (c, []) else (c, []))
               else
                 let sorted_bids = sort_key bid_value valid_bids;
                     c1 = c\<lparr>task_bids := (task_bids c)(tid \<mapsto> sorted_bids)\<rparr>;
                     winning_bid = hd sorted_bids;
                     (c2, pubs) = send_allocation c1 (p_task task_info) (b_agent_id winning_bid)
                                    winning_bid (length (bids task_info)) now new_id
                 in (c2\<lparr>pending_tasks := (pending_tasks c2)(tid := None)\<rparr>, pubs))"

section \<open>Example data\<close>

text \<open>
  A task as \<^verbatim>\<open>create_sample_tasks\<close> of run\_simulation.py builds it, the bid that
  an idle agent sends for it when \<^verbatim>\<open>random.uniform(0, 5)\<close> draws \<open>r\<close>, and the
  envelopes that \<^verbatim>\<open>broadcast_task\<close> and \<^verbatim>\<open>_send_allocation\<close> publish for it.
\<close>

definition example_task :: "string \<Rightarrow> task" where
  "example_task s =
     \<lparr> task_id = ''task_'' @ s, priority = 5, estimated_time = 1,
       description = ''Process data batch '' @ s, created_at = 0 \<rparr>"

definition example_bid :: "string \<Rightarrow> string \<Rightarrow> real \<Rightarrow> bid" where
  "example_bid aid s r =
     \<lparr> b_agent_id = aid, b_task_id = ''task_'' @ s, bid_value = r, b_current_load = 0,
       estimated_completion_time = 1 \<rparr>"

definition example_broadcast :: "string \<Rightarrow> envelope" where
  "example_broadcast s =
     \<lparr> msg_id = ''bcast_'' @ s, sender_id = ''coordinator'',
       body = TaskBroadcast (example_task s), timestamp = 0, requires_ack = True \<rparr>"

definition example_allocation :: "string \<Rightarrow> string \<Rightarrow> envelope" where
  "example_allocation aid s =
     \<lparr> msg_id = ''alloc_'' @ s, sender_id = ''coordinator'',
       body = TaskAllocation (example_task s) aid (example_bid aid s 2),
       timestamp = 2, requires_ack = True \<rparr>"

text \<open>
  Six tasks are broadcast to an idle agent, which bids for each of them, and the
  coordinator then allocates all six to it.
\<close>

definition overload_ops :: "agent_op list" where
  "overload_ops =
     map (\<lambda>s. DeliverBroadcast (example_broadcast s) 2) [''0'', ''1'', ''2'', ''3'', ''4'', ''5''] @
     map (\<lambda>s. DeliverAllocation (example_allocation ''agent_1'' s))
       [''0'', ''1'', ''2'', ''3'', ''4'', ''5'']"

text \<open>The \<open>k\<close>-th of an unbounded supply of broadcasts with pairwise distinct ids.\<close>

definition numbered_broadcast :: "nat \<Rightarrow> envelope" where
  "numbered_broadcast k = example_broadcast (replicate (Suc k) CHR ''x'')"

text \<open>
  The broker after \<^verbatim>\<open>listen()\<close> and one reliable publication of the allocation
  of task 0 to agent 1 at time 0.
\<close>

definition example_broker :: broker where
  "example_broker =
     \<lparr> running = True, lock_held = False, pending_acks = [(''alloc_0'', 0)],
       info_store =
         [\<lparr> channel = ''allocations'', message = example_allocation ''agent_1'' ''0'',
            sent_at = 0, retries = 0 \<rparr>],
       message_queues = (\<lambda>ch. [])(''allocations'' := [example_allocation ''agent_1'' ''0'']),
       ack_timeout = 5, max_retries = 3 \<rparr>"

text \<open>
  The coordinator after the broadcast of task 0, and after the bids of agent 1 (value 2)
  and agent 2 (value 1) have arrived in this order.
\<close>

definition example_bid_message :: "string \<Rightarrow> string \<Rightarrow> real \<Rightarrow> envelope" where
  "example_bid_message aid s r =
     \<lparr> msg_id = ''bid_'' @ aid @ ''_'' @ s, sender_id = aid,
       body = BidMessage (example_bid aid s r), timestamp = 1, requires_ack = False \<rparr>"

definition example_coordinator :: coordinator where
  "example_coordinator =
     fst (broadcast_task coordinator_init (example_task ''0'') True 0 ''bcast_0'')"

definition example_auction :: coordinator where
  "example_auction =
     handle_bid
       (handle_bid example_coordinator (example_bid_message ''agent_1'' ''0'' 2) 1)
       (example_bid_message ''agent_2'' ''0'' 1) 1"

section \<open>Deduplication by message id in the agent\<close>

lemma handle_task_broadcast_seen:
  "truthy (msg_id e) \<Longrightarrow> msg_id e \<in> processed_message_ids a \<Longrightarrow>
     handle_task_broadcast a e r = (a, [])"
  by (simp add: handle_task_broadcast_def split: body.splits)

lemma handle_task_allocation_seen:
  "truthy (msg_id e) \<Longrightarrow> msg_id e \<in> processed_message_ids a \<Longrightarrow>
     handle_task_allocation a e = (a, [])"
  by (simp add: handle_task_allocation_def split: body.splits)

lemma broadcast_same_or_recorded:
  "truthy (msg_id e) \<Longrightarrow>
     fst (handle_task_broadcast a e r) = a \<or>
     msg_id e \<in> processed_message_ids (fst (handle_task_broadcast a e r))"
  by (cases "body e") (simp_all add: handle_task_broadcast_def Let_def)

lemma allocation_same_or_recorded:
  "truthy (msg_id e) \<Longrightarrow>
     fst (handle_task_allocation a e) = a \<or>
     msg_id e \<in> processed_message_ids (fst (handle_task_allocation a e))"
  by (cases "body e") (simp_all add: handle_task_allocation_def Let_def)

text \<open>The random draw decides the value of the bid only, never the agent's state.\<close>

lemma broadcast_state_indep:
  "fst (handle_task_broadcast a e r) = fst (handle_task_broadcast a e r')"
  by (cases "body e") (simp_all add: handle_task_broadcast_def Let_def)

text \<open>
  The handlers add an id to \<^verbatim>\<open>processed_message_ids\<close> only under
  \<^verbatim>\<open>if msg_id:\<close>, so the set never holds the empty string.
\<close>

lemma processed_ids_truthy_broadcast:
  "\<forall>m \<in> processed_message_ids a. truthy m \<Longrightarrow>
     \<forall>m \<in> processed_message_ids (fst (handle_task_broadcast a e r)). truthy m"
  by (cases "body e") (simp_all add: handle_task_broadcast_def Let_def)

lemma processed_ids_truthy_allocation:
  "\<forall>m \<in> processed_message_ids a. truthy m \<Longrightarrow>
     \<forall>m \<in> processed_message_ids (fst (handle_task_allocation a e)). truthy m"
  by (cases "body e") (simp_all add: handle_task_allocation_def Let_def)

text \<open>
  Claim C5. An envelope whose (non-empty) message id is already in
  \<^verbatim>\<open>processed_message_ids\<close> leaves the agent as it is, on either handler; hence
  delivering an envelope twice to a handler gives the same agent as delivering it once,
  whatever the agent's state and whatever the random draws.
\<close>

theorem redelivery_is_idempotent:
  assumes "truthy (msg_id e)"
  shows "(msg_id e \<in> processed_message_ids a \<longrightarrow>
            fst (handle_task_broadcast a e r) = a \<and> fst (handle_task_allocation a e) = a) \<and>
         fst (handle_task_broadcast (fst (handle_task_broadcast a e r)) e r') =
           fst (handle_task_broadcast a e r) \<and>
         fst (handle_task_allocation (fst (handle_task_allocation a e)) e) =
           fst (handle_task_allocation a e)"
proof (intro conjI impI)
  assume "msg_id e \<in> processed_message_ids a"
  then show "fst (handle_task_broadcast a e r) = a" "fst (handle_task_allocation a e) = a"
    using assms by (simp_all add: handle_task_broadcast_seen handle_task_allocation_seen)
next
  from broadcast_same_or_recorded [OF assms, of a r]
  show "fst (handle_task_broadcast (fst (handle_task_broadcast a e r)) e r') =
           fst (handle_task_broadcast a e r)"
  proof
    assume "fst (handle_task_broadcast a e r) = a"
    then show ?thesis using broadcast_state_indep [of a e r' r] by simp
  next
    assume "msg_id e \<in> processed_message_ids (fst (handle_task_broadcast a e r))"
    then show ?thesis by (simp add: handle_task_broadcast_seen [OF assms])
  qed
next
  from allocation_same_or_recorded [OF assms, of a]
  show "fst (handle_task_allocation (fst (handle_task_allocation a e)) e) =
           fst (handle_task_allocation a e)"
  proof
    assume "fst (handle_task_allocation a e) = a"
    then show ?thesis by simp
  next
    assume "msg_id e \<in> processed_message_ids (fst (handle_task_allocation a e))"
    then show ?thesis by (simp add: handle_task_allocation_seen [OF assms])
  qed
qed

theorem redelivery_is_idempotent_witness:
  "truthy (msg_id (example_broadcast ''0'')) \<and>
   msg_id (example_broadcast ''0'') \<in>
     processed_message_ids
       (fst (handle_task_broadcast (agent_init ''agent_1'' 0) (example_broadcast ''0'') 2)) \<and>
   fst (handle_task_broadcast
          (fst (handle_task_broadcast (agent_init ''agent_1'' 0) (example_broadcast ''0'') 2))
          (example_broadcast ''0'') 3) =
     fst (handle_task_broadcast (agent_init ''agent_1'' 0) (example_broadcast ''0'') 2) \<and>
   truthy (msg_id (example_allocation ''agent_1'' ''0'')) \<and>
   fst (handle_task_allocation
          (fst (handle_task_allocation (agent_init ''agent_1'' 0)
                  (example_allocation ''agent_1'' ''0'')))
          (example_allocation ''agent_1'' ''0'')) =
     fst (handle_task_allocation (agent_init ''agent_1'' 0) (example_allocation ''agent_1'' ''0''))"
proof -
  have t1: "truthy (msg_id (example_broadcast ''0''))"
    by (simp add: truthy_def example_broadcast_def)
  have t2: "truthy (msg_id (example_allocation ''agent_1'' ''0''))"
    by (simp add: truthy_def example_allocation_def)
  have m: "msg_id (example_broadcast ''0'') \<in>
     processed_message_ids
       (fst (handle_task_broadcast (agent_init ''agent_1'' 0) (example_broadcast ''0'') 2))"
    by (simp add: handle_task_broadcast_def example_broadcast_def agent_init_def truthy_def
        Let_def)
  note b = redelivery_is_idempotent [OF t1, of "agent_init ''agent_1'' 0" 2 3]
  note a = redelivery_is_idempotent [OF t2, of "agent_init ''agent_1'' 0" 2 3]
  show ?thesis
    by (intro conjI t1 t2 m b [THEN conjunct2, THEN conjunct1] a [THEN conjunct2, THEN conjunct2])
qed

text \<open>
  Claim C8. A task broadcast whose (non-empty) message id is already in
  \<^verbatim>\<open>processed_message_ids\<close> returns at the deduplication check: the agent is
  unchanged and nothing is published, so no ACK is sent either, whether or not the
  envelope requires one.
\<close>

theorem duplicate_broadcast_is_silent:
  assumes "truthy (msg_id e)" and "msg_id e \<in> processed_message_ids a"
  shows "handle_task_broadcast a e r = (a, []) \<and>
         SendAck (msg_id e) \<notin> set (snd (handle_task_broadcast a e r))"
  using handle_task_broadcast_seen [OF assms, of r] by simp

theorem duplicate_broadcast_is_silent_witness:
  "truthy (msg_id (example_broadcast ''0'')) \<and>
   requires_ack (example_broadcast ''0'') \<and>
   snd (handle_task_broadcast (agent_init ''agent_1'' 0) (example_broadcast ''0'') 2) =
     [SendAck ''bcast_0'', SendBid (example_bid ''agent_1'' ''0'' 2)] \<and>
   msg_id (example_broadcast ''0'') \<in>
     processed_message_ids
       (fst (handle_task_broadcast (agent_init ''agent_1'' 0) (example_broadcast ''0'') 2)) \<and>
   handle_task_broadcast
       (fst (handle_task_broadcast (agent_init ''agent_1'' 0) (example_broadcast ''0'') 2))
       (example_broadcast ''0'') 3 =
     (fst (handle_task_broadcast (agent_init ''agent_1'' 0) (example_broadcast ''0'') 2), [])"
proof -
  have t1: "truthy (msg_id (example_broadcast ''0''))"
    by (simp add: truthy_def example_broadcast_def)
  have rq: "requires_ack (example_broadcast ''0'')"
    by (simp add: example_broadcast_def)
  have first: "snd (handle_task_broadcast (agent_init ''agent_1'' 0) (example_broadcast ''0'') 2) =
     [SendAck ''bcast_0'', SendBid (example_bid ''agent_1'' ''0'' 2)]"
    by (simp add: handle_task_broadcast_def example_broadcast_def agent_init_def truthy_def
        ack_if_required_def send_bid_def example_bid_def example_task_def Let_def)
  have m: "msg_id (example_broadcast ''0'') \<in>
     processed_message_ids
       (fst (handle_task_broadcast (agent_init ''agent_1'' 0) (example_broadcast ''0'') 2))"
    by (simp add: handle_task_broadcast_def example_broadcast_def agent_init_def truthy_def
        Let_def)
  from duplicate_broadcast_is_silent [OF t1 m, of 3]
  show ?thesis
    by (intro conjI t1 rq first m) simp
qed

section \<open>Acknowledgements and retransmission in the broker\<close>

lemma delete_absent: "map_of al k = None \<Longrightarrow> AList.delete k al = al"
  by (induction al) (auto split: if_splits)

lemma handle_ack_free:
  "\<not> lock_held b \<Longrightarrow>
     handle_ack b mid = Some (b\<lparr>pending_acks := AList.delete mid (pending_acks b)\<rparr>)"
  by (cases "map_of (pending_acks b) mid")
     (simp_all add: handle_ack_def acquire_def release_def delete_absent)

lemma publish_example:
  "publish (listen broker_init) ''allocations'' (example_allocation ''agent_1'' ''0'') True 0 =
     Some example_broker"
  by (simp add: publish_def listen_def broker_init_def acquire_def release_def
      example_broker_def example_allocation_def)

text \<open>
  Claim C6. With the lock free, as it is between two operations, \<^verbatim>\<open>handle_ack\<close>
  returns; the table afterwards is the old one without the acknowledged id, every other
  entry and every other field of the broker untouched; a second ACK for the same id
  changes nothing; and an ACK for an id that is not pending changes nothing.
\<close>

theorem handle_ack_removes_once:
  assumes "\<not> lock_held b"
  shows "handle_ack b mid = Some (b\<lparr>pending_acks := AList.delete mid (pending_acks b)\<rparr>) \<and>
         map_of (AList.delete mid (pending_acks b)) = (map_of (pending_acks b))(mid := None) \<and>
         handle_ack (b\<lparr>pending_acks := AList.delete mid (pending_acks b)\<rparr>) mid =
           Some (b\<lparr>pending_acks := AList.delete mid (pending_acks b)\<rparr>) \<and>
         (map_of (pending_acks b) mid = None \<longrightarrow> handle_ack b mid = Some b)"
proof (intro conjI impI)
  show "handle_ack b mid = Some (b\<lparr>pending_acks := AList.delete mid (pending_acks b)\<rparr>)"
    by (rule handle_ack_free [OF assms])
  show "map_of (AList.delete mid (pending_acks b)) = (map_of (pending_acks b))(mid := None)"
    by (simp add: AList.delete_conv')
  have "\<not> lock_held (b\<lparr>pending_acks := AList.delete mid (pending_acks b)\<rparr>)"
    using assms by simp
  from handle_ack_free [OF this, of mid]
  show "handle_ack (b\<lparr>pending_acks := AList.delete mid (pending_acks b)\<rparr>) mid =
           Some (b\<lparr>pending_acks := AList.delete mid (pending_acks b)\<rparr>)"
    by (simp add: AList.delete_idem)
  assume "map_of (pending_acks b) mid = None"
  then show "handle_ack b mid = Some b"
    using handle_ack_free [OF assms, of mid] by (simp add: delete_absent)
qed

theorem handle_ack_removes_once_witness:
  "\<not> lock_held example_broker \<and>
   map_of (pending_acks example_broker) ''alloc_0'' = Some 0 \<and>
   handle_ack example_broker ''alloc_0'' = Some (example_broker\<lparr>pending_acks := []\<rparr>) \<and>
   handle_ack (example_broker\<lparr>pending_acks := []\<rparr>) ''alloc_0'' =
     Some (example_broker\<lparr>pending_acks := []\<rparr>) \<and>
   map_of (pending_acks example_broker) ''alloc_9'' = None \<and>
   handle_ack example_broker ''alloc_9'' = Some example_broker"
proof -
  have free: "\<not> lock_held example_broker"
    by (simp add: example_broker_def)
  have del: "AList.delete ''alloc_0'' (pending_acks example_broker) = []"
    by (simp add: example_broker_def)
  have unknown: "map_of (pending_acks example_broker) ''alloc_9'' = None"
    by (simp add: example_broker_def)
  have known: "map_of (pending_acks example_broker) ''alloc_0'' = Some 0"
    by (simp add: example_broker_def)
  note first = handle_ack_removes_once [OF free, of "''alloc_0''"]
  note other = handle_ack_removes_once [OF free, of "''alloc_9''"]
  have a1: "handle_ack example_broker ''alloc_0'' = Some (example_broker\<lparr>pending_acks := []\<rparr>)"
    using first del by simp
  have a2: "handle_ack (example_broker\<lparr>pending_acks := []\<rparr>) ''alloc_0'' =
              Some (example_broker\<lparr>pending_acks := []\<rparr>)"
    using first del by simp
  have a3: "handle_ack example_broker ''alloc_9'' = Some example_broker"
    using other unknown by blast
  show ?thesis
    by (intro conjI free known a1 a2 unknown a3)
qed

text \<open>
  A reliable publication installs a new info dict with \<^verbatim>\<open>retries = 0\<close> under the
  message id, also when the table already holds one for that id.
\<close>

lemma publish_installs_fresh_info:
  "running b \<Longrightarrow> \<not> lock_held b \<Longrightarrow> requires_ack m \<Longrightarrow>
     \<exists>b'. publish b ch m True now = Some b' \<and>
          pending_info_of b' (msg_id m) =
            Some \<lparr>channel = ch, message = m, sent_at = now, retries = 0\<rparr>"
  by (simp add: publish_def acquire_def release_def pending_info_of_def AList.update_conv')

text \<open>
  Claim C2, on the code. The allocation of task 0 is published reliably at time 0 and is
  never acknowledged. At time 6 it is overdue with \<^verbatim>\<open>retries = 0 < 3\<close>, so
  \<^verbatim>\<open>check_timeouts\<close>, holding \<^verbatim>\<open>self.lock\<close>, calls
  \<^verbatim>\<open>self.publish(.., reliable=True)\<close>, which takes the same lock: the call never
  returns. Nothing is republished, \<^verbatim>\<open>retries\<close> stays 0 and the entry stays in the
  table.
\<close>

theorem check_timeouts_blocks_on_retransmission:
  "publish (listen broker_init) ''allocations'' (example_allocation ''agent_1'' ''0'') True 0 =
     Some example_broker \<and>
   pending_info_of example_broker ''alloc_0'' =
     Some \<lparr>channel = ''allocations'', message = example_allocation ''agent_1'' ''0'',
           sent_at = 0, retries = 0\<rparr> \<and>
   check_timeouts example_broker 6 = None"
proof (intro conjI)
  show "check_timeouts example_broker 6 = None"
    by (simp add: check_timeouts_def example_broker_def acquire_def publish_def
        example_allocation_def)
qed (simp_all add: publish_example, simp add: pending_info_of_def example_broker_def)

text \<open>
  The loop body alone, entered with the lock free (as it would run under a re-entrant
  lock): the retransmission goes through \<^verbatim>\<open>publish\<close>, which replaces the table's
  entry by a new dict with \<^verbatim>\<open>retries = 0\<close>; the increment lands in the old dict at
  address 0, which the table no longer refers to.
\<close>

lemma retransmission_detaches_info:
  "(case timeouts_loop (pending_acks example_broker) 6 example_broker of
      None \<Rightarrow> False
    | Some b \<Rightarrow>
        pending_info_of b ''alloc_0'' =
          Some \<lparr>channel = ''allocations'', message = example_allocation ''agent_1'' ''0'',
                sent_at = 6, retries = 0\<rparr> \<and>
        retries (info_store b ! 0) = 1)"
  by (simp add: example_broker_def publish_def acquire_def release_def pending_info_of_def
      example_allocation_def)

section \<open>The load of an agent\<close>

text \<open>
  Claim C1, on the code. An idle agent receives the broadcasts of six tasks and bids for
  each, its load being 0 every time; the six allocations that follow are all accepted,
  since \<^verbatim>\<open>handle_task_allocation\<close> never compares the load with
  \<^verbatim>\<open>max_load\<close>. The load ends at 6 with \<^verbatim>\<open>max_load = 5\<close>.
\<close>

theorem six_allocations_exceed_max_load:
  "(case run_agent (agent_init ''agent_1'' 0) overload_ops of
      (a, effs) \<Rightarrow>
        length (filter is_bid_effect effs) = 6 \<and>
        current_load a = 6 \<and> max_load a = 5 \<and> \<not> current_load a \<le> max_load a)"
  by (simp add: overload_ops_def agent_init_def example_broadcast_def example_allocation_def
      example_task_def example_bid_def handle_task_broadcast_def handle_task_allocation_def
      ack_if_required_def send_bid_def truthy_def Let_def)

section \<open>Recovery of an agent\<close>

text \<open>
  Claim C10. \<^verbatim>\<open>recover()\<close> on an agent that is not crashed returns
  \<^verbatim>\<open>False\<close>, leaves the agent as it is and publishes nothing. On a crashed agent
  it clears \<^verbatim>\<open>is_crashed\<close>, \<^verbatim>\<open>crash_time\<close> and \<^verbatim>\<open>bid_task_ids\<close>,
  emits \<^verbatim>\<open>agent_recovered\<close>, sends a heartbeat and returns \<^verbatim>\<open>True\<close>.
\<close>

theorem recover_only_when_crashed:
  "(\<not> is_crashed a \<longrightarrow> recover a now = (a, [], False)) \<and>
   (is_crashed a \<longrightarrow>
      recover a now =
        (a\<lparr>is_crashed := False, crash_time := None, last_heartbeat := now, bid_task_ids := {}\<rparr>,
         [EmitEvent ''agent_recovered'',
          SendHeartbeat (heartbeat_status a) (current_load a) (max_load a)],
         True))"
  by (simp add: recover_def send_heartbeat_def heartbeat_status_def)

theorem recover_only_when_crashed_witness:
  "\<not> is_crashed (agent_init ''agent_1'' 0) \<and>
   recover (agent_init ''agent_1'' 0) 5 = (agent_init ''agent_1'' 0, [], False) \<and>
   is_crashed (fst (crash (agent_init ''agent_1'' 0) (Some 0) 3)) \<and>
   recover (fst (crash (agent_init ''agent_1'' 0) (Some 0) 3)) 5 =
     ((agent_init ''agent_1'' 0)
        \<lparr>auto_recover_enabled := False, last_heartbeat := 5\<rparr>,
      [EmitEvent ''agent_recovered'', SendHeartbeat ''idle'' 0 5], True)"
proof -
  have n: "\<not> is_crashed (agent_init ''agent_1'' 0)"
    by (simp add: agent_init_def)
  have c: "is_crashed (fst (crash (agent_init ''agent_1'' 0) (Some 0) 3))"
    by (simp add: crash_def agent_init_def Let_def)
  from recover_only_when_crashed [of "agent_init ''agent_1'' 0" 5] n
  have r1: "recover (agent_init ''agent_1'' 0) 5 = (agent_init ''agent_1'' 0, [], False)"
    by blast
  from recover_only_when_crashed [of "fst (crash (agent_init ''agent_1'' 0) (Some 0) 3)" 5] c
  have "recover (fst (crash (agent_init ''agent_1'' 0) (Some 0) 3)) 5 =
     ((fst (crash (agent_init ''agent_1'' 0) (Some 0) 3))
        \<lparr>is_crashed := False, crash_time := None, last_heartbeat := 5, bid_task_ids := {}\<rparr>,
         [EmitEvent ''agent_recovered'',
          SendHeartbeat (heartbeat_status (fst (crash (agent_init ''agent_1'' 0) (Some 0) 3)))
            (current_load (fst (crash (agent_init ''agent_1'' 0) (Some 0) 3)))
            (max_load (fst (crash (agent_init ''agent_1'' 0) (Some 0) 3)))],
         True)"
    by blast
  then have r2: "recover (fst (crash (agent_init ''agent_1'' 0) (Some 0) 3)) 5 =
     ((agent_init ''agent_1'' 0)
        \<lparr>auto_recover_enabled := False, last_heartbeat := 5\<rparr>,
      [EmitEvent ''agent_recovered'', SendHeartbeat ''idle'' 0 5], True)"
    by (simp add: crash_def agent_init_def heartbeat_status_def Let_def)
  show ?thesis
    by (intro conjI n r1 c r2)
qed

section \<open>Bids and allocation in the coordinator\<close>

lemma example_coordinator_pending:
  "pending_tasks example_coordinator ''task_0'' =
     Some \<lparr> p_task = example_task ''0'', bids = [], broadcast_at = 0 \<rparr> \<and>
   completed_task_ids example_coordinator = {} \<and>
   cancelled_task_ids example_coordinator = {} \<and>
   failed_agents example_coordinator = {}"
  by (simp add: example_coordinator_def broadcast_task_def log_activity_def
      coordinator_init_def example_task_def Let_def)

lemma example_auction_pending:
  "pending_tasks example_auction ''task_0'' =
     Some \<lparr> p_task = example_task ''0'',
            bids = [example_bid ''agent_1'' ''0'' 2, example_bid ''agent_2'' ''0'' 1],
            broadcast_at = 0 \<rparr> \<and>
   completed_task_ids example_auction = {} \<and>
   cancelled_task_ids example_auction = {} \<and>
   failed_agents example_auction = {}"
  by (simp add: example_auction_def handle_bid_def example_bid_message_def example_bid_def
      example_coordinator_def broadcast_task_def log_activity_def
      coordinator_init_def example_task_def Let_def)

text \<open>
  Claim C9. A bid for a task that is not a key of \<^verbatim>\<open>pending_tasks\<close> (a late bid,
  or a bid for an unknown task) leaves the whole coordinator as it is, so
  \<^verbatim>\<open>pending_tasks\<close>, \<^verbatim>\<open>task_bids\<close> and the activity log are unchanged and
  the bid can influence no later allocation or reassignment.
\<close>

theorem handle_bid_unknown_task:
  assumes "body e = BidMessage b" and "pending_tasks c (b_task_id b) = None"
  shows "handle_bid c e now = c"
  using assms by (simp add: handle_bid_def)

theorem handle_bid_unknown_task_witness:
  "body (example_bid_message ''agent_3'' ''0'' 4) = BidMessage (example_bid ''agent_3'' ''0'' 4) \<and>
   b_task_id (example_bid ''agent_3'' ''0'' 4) = ''task_0'' \<and>
   pending_tasks (fst (allocate_task example_auction ''task_0'' 2 ''alloc_0'')) ''task_0'' = None \<and>
   handle_bid (fst (allocate_task example_auction ''task_0'' 2 ''alloc_0''))
       (example_bid_message ''agent_3'' ''0'' 4) 3 =
     fst (allocate_task example_auction ''task_0'' 2 ''alloc_0'')"
proof -
  have b: "body (example_bid_message ''agent_3'' ''0'' 4) =
             BidMessage (example_bid ''agent_3'' ''0'' 4)"
    by (simp add: example_bid_message_def)
  have t: "b_task_id (example_bid ''agent_3'' ''0'' 4) = ''task_0''"
    by (simp add: example_bid_def)
  have p: "pending_tasks (fst (allocate_task example_auction ''task_0'' 2 ''alloc_0''))
             ''task_0'' = None"
    using example_auction_pending
    by (simp add: allocate_task_def send_allocation_def log_activity_def example_bid_def Let_def)
  have p': "pending_tasks (fst (allocate_task example_auction ''task_0'' 2 ''alloc_0''))
             (b_task_id (example_bid ''agent_3'' ''0'' 4)) = None"
    using p t by simp
  show ?thesis
    by (intro conjI b t p handle_bid_unknown_task [OF b p'])
qed

text \<open>
  Claim C3, as stated, fails on the code: task 0 is pending with an empty bid list and
  is neither completed nor cancelled, and after \<^verbatim>\<open>allocate_task\<close> it is still
  in \<^verbatim>\<open>pending_tasks\<close>.
\<close>

theorem allocate_task_keeps_unbid_task:
  "map_option bids (pending_tasks example_coordinator ''task_0'') = Some [] \<and>
   ''task_0'' \<notin> completed_task_ids example_coordinator \<and>
   ''task_0'' \<notin> cancelled_task_ids example_coordinator \<and>
   pending_tasks (fst (allocate_task example_coordinator ''task_0'' 2 ''alloc_0'')) ''task_0'' \<noteq> None"
  using example_coordinator_pending by (simp add: allocate_task_def)

text \<open>
  Claim C3, amended. For a pending task that is neither completed nor cancelled and has
  no bid from an agent outside \<^verbatim>\<open>failed_agents\<close> (the bid list is empty, or every
  bidder has failed), \<^verbatim>\<open>allocate_task\<close> changes nothing and publishes nothing: the
  entry of \<^verbatim>\<open>pending_tasks\<close> stays in both cases.
\<close>

theorem allocate_task_no_valid_bid:
  assumes "pending_tasks c tid = Some info"
    and "tid \<notin> completed_task_ids c" and "tid \<notin> cancelled_task_ids c"
    and "filter (\<lambda>b. b_agent_id b \<notin> failed_agents c) (bids info) = []"
  shows "allocate_task c tid now new_id = (c, [])"
  using assms by (simp add: allocate_task_def)

theorem allocate_task_no_valid_bid_witness:
  "pending_tasks example_coordinator ''task_0'' =
     Some \<lparr> p_task = example_task ''0'', bids = [], broadcast_at = 0 \<rparr> \<and>
   ''task_0'' \<notin> completed_task_ids example_coordinator \<and>
   ''task_0'' \<notin> cancelled_task_ids example_coordinator \<and>
   allocate_task example_coordinator ''task_0'' 2 ''alloc_0'' = (example_coordinator, []) \<and>
   pending_tasks (example_auction\<lparr>failed_agents := {''agent_1'', ''agent_2''}\<rparr>) ''task_0'' =
     Some \<lparr> p_task = example_task ''0'',
            bids = [example_bid ''agent_1'' ''0'' 2, example_bid ''agent_2'' ''0'' 1],
            broadcast_at = 0 \<rparr> \<and>
   allocate_task (example_auction\<lparr>failed_agents := {''agent_1'', ''agent_2''}\<rparr>)
       ''task_0'' 2 ''alloc_0'' =
     (example_auction\<lparr>failed_agents := {''agent_1'', ''agent_2''}\<rparr>, [])"
proof -
  note c = example_coordinator_pending
  note a = example_auction_pending
  have p1: "pending_tasks example_coordinator ''task_0'' =
     Some \<lparr> p_task = example_task ''0'', bids = [], broadcast_at = 0 \<rparr>"
    using c by simp
  have n1: "''task_0'' \<notin> completed_task_ids example_coordinator"
    using c by simp
  have n2: "''task_0'' \<notin> cancelled_task_ids example_coordinator"
    using c by simp
  have f1: "filter (\<lambda>b. b_agent_id b \<notin> failed_agents example_coordinator)
              (bids \<lparr> p_task = example_task ''0'', bids = [], broadcast_at = 0 \<rparr>) = []"
    by simp
  let ?c = "example_auction\<lparr>failed_agents := {''agent_1'', ''agent_2''}\<rparr>"
  let ?i = "\<lparr> p_task = example_task ''0'',
            bids = [example_bid ''agent_1'' ''0'' 2, example_bid ''agent_2'' ''0'' 1],
            broadcast_at = 0 \<rparr>"
  have p2: "pending_tasks ?c ''task_0'' = Some ?i"
    using a by simp
  have n3: "''task_0'' \<notin> completed_task_ids ?c" "''task_0'' \<notin> cancelled_task_ids ?c"
    using a by simp_all
  have f2: "filter (\<lambda>b. b_agent_id b \<notin> failed_agents ?c) (bids ?i) = []"
    by (simp add: example_bid_def)
  show ?thesis
    by (intro conjI p1 n1 n2 p2
        allocate_task_no_valid_bid [OF p1 n1 n2 f1]
        allocate_task_no_valid_bid [OF p2 n3 f2])
qed

text \<open>
  Claim C4, as stated, fails on the code: the claim asks only for a pending bid list with
  a bid from an agent that has not failed. Task 0 is pending with the bids of agents 1
  and 2, neither of which has failed, and is already in \<^verbatim>\<open>completed_task_ids\<close>;
  \<^verbatim>\<open>allocate_task\<close> then deletes the pending entry and returns: it publishes
  no allocation and stores nothing in \<^verbatim>\<open>task_bids\<close>.
\<close>

theorem allocate_task_skips_completed_task:
  "pending_tasks (example_auction\<lparr>completed_task_ids := {''task_0''}\<rparr>) ''task_0'' =
     Some \<lparr> p_task = example_task ''0'',
            bids = [example_bid ''agent_1'' ''0'' 2, example_bid ''agent_2'' ''0'' 1],
            broadcast_at = 0 \<rparr> \<and>
   filter (\<lambda>b. b_agent_id b \<notin> failed_agents (example_auction\<lparr>completed_task_ids := {''task_0''}\<rparr>))
     [example_bid ''agent_1'' ''0'' 2, example_bid ''agent_2'' ''0'' 1] =
     [example_bid ''agent_1'' ''0'' 2, example_bid ''agent_2'' ''0'' 1] \<and>
   snd (allocate_task (example_auction\<lparr>completed_task_ids := {''task_0''}\<rparr>)
          ''task_0'' 2 ''alloc_0'') = [] \<and>
   task_bids (fst (allocate_task (example_auction\<lparr>completed_task_ids := {''task_0''}\<rparr>)
                     ''task_0'' 2 ''alloc_0'')) ''task_0'' = None \<and>
   pending_tasks (fst (allocate_task (example_auction\<lparr>completed_task_ids := {''task_0''}\<rparr>)
                         ''task_0'' 2 ''alloc_0'')) ''task_0'' = None"
proof -
  let ?c = "example_auction\<lparr>completed_task_ids := {''task_0''}\<rparr>"
  let ?bs = "[example_bid ''agent_1'' ''0'' 2, example_bid ''agent_2'' ''0'' 1]"
  note a = example_auction_pending
  have p: "pending_tasks ?c ''task_0'' =
     Some \<lparr> p_task = example_task ''0'', bids = ?bs, broadcast_at = 0 \<rparr>"
    using a by simp
  have f: "filter (\<lambda>b. b_agent_id b \<notin> failed_agents ?c) ?bs = ?bs"
    using a by simp
  have tb0: "task_bids example_auction ''task_0'' = None"
    by (simp add: example_auction_def handle_bid_def example_bid_message_def example_bid_def
        example_coordinator_def broadcast_task_def log_activity_def
        coordinator_init_def example_task_def Let_def)
  have run: "allocate_task ?c ''task_0'' 2 ''alloc_0'' =
     (?c\<lparr>pending_tasks := (pending_tasks ?c)(''task_0'' := None)\<rparr>, [])"
    using p by (simp add: allocate_task_def)
  have e: "snd (allocate_task ?c ''task_0'' 2 ''alloc_0'') = []"
    using run by simp
  have tb: "task_bids (fst (allocate_task ?c ''task_0'' 2 ''alloc_0'')) ''task_0'' = None"
    using run tb0 by simp
  have pt: "pending_tasks (fst (allocate_task ?c ''task_0'' 2 ''alloc_0'')) ''task_0'' = None"
    using run by simp
  show ?thesis
    by (intro conjI p f e tb pt)
qed

text \<open>
  Claim C4, amended. For a pending task that is neither completed nor cancelled and has
  at least one bid from an agent that has not failed, \<^verbatim>\<open>allocate_task\<close> stores
  in \<^verbatim>\<open>task_bids\<close> the bids of the agents that have not failed, sorted by
  \<^verbatim>\<open>bid_value\<close> in ascending order, bids of equal value in the order of their
  arrival, and publishes on \<^verbatim>\<open>allocations\<close>, reliably, the allocation of the
  task to the agent of the first bid of that list, whose value is the lowest; the task
  leaves \<^verbatim>\<open>pending_tasks\<close>.
\<close>

theorem allocate_task_lowest_bid:
  assumes pend: "pending_tasks c tid = Some info"
    and live: "tid \<notin> completed_task_ids c" "tid \<notin> cancelled_task_ids c"
    and valid: "valid = filter (\<lambda>b. b_agent_id b \<notin> failed_agents c) (bids info)"
    and ne: "valid \<noteq> []"
  shows "\<exists>c' m w rest.
           allocate_task c tid now new_id = (c', [(''allocations'', m, True)]) \<and>
           task_bids c' tid = Some (w # rest) \<and>
           sorted (map bid_value (w # rest)) \<and>
           mset (w # rest) = mset valid \<and>
           (\<forall>k. filter (\<lambda>b. bid_value b = k) (w # rest) = filter (\<lambda>b. bid_value b = k) valid) \<and>
           (\<forall>b \<in> set valid. bid_value w \<le> bid_value b) \<and>
           body m = TaskAllocation (p_task info) (b_agent_id w) w \<and>
           msg_id m = new_id \<and> requires_ack m \<and>
           pending_tasks c' tid = None"
proof -
  have "sort_key bid_value valid \<noteq> []"
    using ne by (metis length_sort length_0_conv)
  then obtain w rest where srt: "sort_key bid_value valid = w # rest"
    by (cases "sort_key bid_value valid") auto
  have s1: "sorted (map bid_value (w # rest))"
    using sorted_sort_key [of bid_value valid] srt by simp
  have s2: "mset (w # rest) = mset valid"
    using mset_sort [of bid_value valid] srt by simp
  have s3: "\<forall>k. filter (\<lambda>b. bid_value b = k) (w # rest) = filter (\<lambda>b. bid_value b = k) valid"
    using sort_key_stable [of bid_value _ valid] srt by simp
  have "set (w # rest) = set valid"
    using s2 by (metis mset_eq_setD)
  then have s4: "\<forall>b \<in> set valid. bid_value w \<le> bid_value b"
    using s1 by auto
  have run: "allocate_task c tid now new_id =
      (fst (allocate_task c tid now new_id),
       [(''allocations'',
         \<lparr> msg_id = new_id, sender_id = ''coordinator'',
           body = TaskAllocation (p_task info) (b_agent_id w) w, timestamp = now,
           requires_ack = True \<rparr>, True)])"
    using pend live valid ne srt
    by (simp add: allocate_task_def send_allocation_def Let_def)
  have tb: "task_bids (fst (allocate_task c tid now new_id)) tid = Some (w # rest)"
    using pend live valid ne srt
    by (simp add: allocate_task_def send_allocation_def log_activity_def Let_def)
  have pt: "pending_tasks (fst (allocate_task c tid now new_id)) tid = None"
    using pend live valid ne srt
    by (simp add: allocate_task_def send_allocation_def log_activity_def Let_def)
  show ?thesis
    using run tb pt s1 s2 s3 s4 by (metis envelope.select_convs(1,3,5))
qed

theorem allocate_task_lowest_bid_witness:
  "pending_tasks example_auction ''task_0'' =
     Some \<lparr> p_task = example_task ''0'',
            bids = [example_bid ''agent_1'' ''0'' 2, example_bid ''agent_2'' ''0'' 1],
            broadcast_at = 0 \<rparr> \<and>
   ''task_0'' \<notin> completed_task_ids example_auction \<and>
   ''task_0'' \<notin> cancelled_task_ids example_auction \<and>
   filter (\<lambda>b. b_agent_id b \<notin> failed_agents example_auction)
     [example_bid ''agent_1'' ''0'' 2, example_bid ''agent_2'' ''0'' 1] =
     [example_bid ''agent_1'' ''0'' 2, example_bid ''agent_2'' ''0'' 1] \<and>
   task_bids (fst (allocate_task example_auction ''task_0'' 2 ''alloc_0'')) ''task_0'' =
     Some [example_bid ''agent_2'' ''0'' 1, example_bid ''agent_1'' ''0'' 2] \<and>
   snd (allocate_task example_auction ''task_0'' 2 ''alloc_0'') =
     [(''allocations'',
       \<lparr> msg_id = ''alloc_0'', sender_id = ''coordinator'',
         body = TaskAllocation (example_task ''0'') ''agent_2'' (example_bid ''agent_2'' ''0'' 1),
         timestamp = 2, requires_ack = True \<rparr>, True)] \<and>
   pending_tasks (fst (allocate_task example_auction ''task_0'' 2 ''alloc_0'')) ''task_0'' = None"
proof -
  let ?bs = "[example_bid ''agent_1'' ''0'' 2, example_bid ''agent_2'' ''0'' 1]"
  let ?i = "\<lparr> p_task = example_task ''0'', bids = ?bs, broadcast_at = 0 \<rparr>"
  note a = example_auction_pending
  have p: "pending_tasks example_auction ''task_0'' = Some ?i"
    using a by simp
  have n1: "''task_0'' \<notin> completed_task_ids example_auction"
    using a by simp
  have n2: "''task_0'' \<notin> cancelled_task_ids example_auction"
    using a by simp
  have f: "filter (\<lambda>b. b_agent_id b \<notin> failed_agents example_auction) ?bs = ?bs"
    using a by simp
  have v: "?bs = filter (\<lambda>b. b_agent_id b \<notin> failed_agents example_auction) (bids ?i)"
    using f by simp
  have ne: "?bs \<noteq> []"
    by simp
  have srt: "sort_key bid_value ?bs = [example_bid ''agent_2'' ''0'' 1, example_bid ''agent_1'' ''0'' 2]"
    by (simp add: example_bid_def)
  have tb: "task_bids (fst (allocate_task example_auction ''task_0'' 2 ''alloc_0'')) ''task_0'' =
     Some [example_bid ''agent_2'' ''0'' 1, example_bid ''agent_1'' ''0'' 2]"
    using p n1 n2 f srt
    by (simp add: allocate_task_def send_allocation_def log_activity_def Let_def)
  have pb: "snd (allocate_task example_auction ''task_0'' 2 ''alloc_0'') =
     [(''allocations'',
       \<lparr> msg_id = ''alloc_0'', sender_id = ''coordinator'',
         body = TaskAllocation (example_task ''0'') ''agent_2'' (example_bid ''agent_2'' ''0'' 1),
         timestamp = 2, requires_ack = True \<rparr>, True)]"
    using p n1 n2 f srt
    by (simp add: allocate_task_def send_allocation_def log_activity_def Let_def example_bid_def)
  from allocate_task_lowest_bid [OF p n1 n2 v ne, of 2 "''alloc_0''"]
  obtain c' where "fst (allocate_task example_auction ''task_0'' 2 ''alloc_0'') = c'"
    and "pending_tasks c' ''task_0'' = None"
    by auto
  then have pt: "pending_tasks (fst (allocate_task example_auction ''task_0'' 2 ''alloc_0''))
     ''task_0'' = None"
    by simp
  show ?thesis
    by (intro conjI p n1 n2 f tb pb pt)
qed

section \<open>Growth of the set of processed message ids\<close>

lemma broadcast_adds_id:
  "body e = TaskBroadcast t \<Longrightarrow> truthy (msg_id e) \<Longrightarrow>
     processed_message_ids (fst (handle_task_broadcast a e r)) =
       insert (msg_id e) (processed_message_ids a)"
  by (auto simp add: handle_task_broadcast_def Let_def)

lemma broadcast_keeps_ids:
  "processed_message_ids a \<subseteq> processed_message_ids (fst (handle_task_broadcast a e r))"
  by (cases "body e") (auto simp add: handle_task_broadcast_def Let_def)

lemma allocation_keeps_ids:
  "processed_message_ids a \<subseteq> processed_message_ids (fst (handle_task_allocation a e))"
  by (cases "body e") (auto simp add: handle_task_allocation_def Let_def)

lemma crash_keeps_ids:
  "processed_message_ids (fst (crash a d now)) = processed_message_ids a"
  by (cases d) (simp_all add: crash_def Let_def)

lemma recover_keeps_ids:
  "processed_message_ids (fst (recover a now)) = processed_message_ids a"
  by (simp add: recover_def send_heartbeat_def)

lemma fst_agent_step_recover: "fst (agent_step a (Recover now)) = fst (recover a now)"
  by (cases "recover a now") simp

lemma fst_run_agent_Cons:
  "fst (run_agent a (op # ops)) = fst (run_agent (fst (agent_step a op)) ops)"
  by (cases "agent_step a op"; cases "run_agent (fst (agent_step a op)) ops") simp

lemma agent_step_keeps_ids:
  "processed_message_ids a \<subseteq> processed_message_ids (fst (agent_step a op))"
proof (cases op)
  case (Recover now)
  show ?thesis
    unfolding Recover fst_agent_step_recover by (simp add: recover_keeps_ids)
qed (simp_all add: broadcast_keeps_ids allocation_keeps_ids crash_keeps_ids)

lemma run_agent_keeps_ids:
  "processed_message_ids a \<subseteq> processed_message_ids (fst (run_agent a ops))"
proof (induction ops arbitrary: a)
  case Nil
  show ?case by simp
next
  case (Cons op ops)
  have "processed_message_ids a \<subseteq> processed_message_ids (fst (agent_step a op))"
    by (rule agent_step_keeps_ids)
  also have "\<dots> \<subseteq> processed_message_ids (fst (run_agent (fst (agent_step a op)) ops))"
    by (rule Cons.IH)
  finally show ?case
    by (simp only: fst_run_agent_Cons)
qed

lemma run_broadcasts_ids:
  "\<forall>e \<in> set es. truthy (msg_id e) \<and> (\<exists>t. body e = TaskBroadcast t) \<Longrightarrow>
     processed_message_ids (fst (run_agent a (map (\<lambda>e. DeliverBroadcast e r) es))) =
       processed_message_ids a \<union> set (map msg_id es)"
proof (induction es arbitrary: a)
  case Nil
  show ?case by simp
next
  case (Cons e es)
  then obtain t where t: "body e = TaskBroadcast t" and tr: "truthy (msg_id e)"
    by auto
  have "processed_message_ids
          (fst (run_agent (fst (handle_task_broadcast a e r)) (map (\<lambda>e. DeliverBroadcast e r) es))) =
        processed_message_ids (fst (handle_task_broadcast a e r)) \<union> set (map msg_id es)"
    using Cons.prems by (intro Cons.IH) simp
  then show ?case
    using broadcast_adds_id [OF t tr, of a r] by (simp add: fst_run_agent_Cons del: run_agent.simps)
qed

lemma numbered_broadcast_props:
  "truthy (msg_id (numbered_broadcast k)) \<and>
   body (numbered_broadcast k) = TaskBroadcast (example_task (replicate (Suc k) CHR ''x''))"
  by (simp add: numbered_broadcast_def example_broadcast_def truthy_def)

lemma numbered_broadcast_inj: "inj (\<lambda>k. msg_id (numbered_broadcast k))"
proof (rule injI)
  fix j k
  assume "msg_id (numbered_broadcast j) = msg_id (numbered_broadcast k)"
  then have "replicate j CHR ''x'' = replicate k CHR ''x''"
    by (simp add: numbered_broadcast_def example_broadcast_def)
  then have "length (replicate j CHR ''x'') = length (replicate k CHR ''x'')"
    by simp
  then show "j = k" by simp
qed

text \<open>
  Claim C7, as stated, fails on the code: no number bounds the size of
  \<^verbatim>\<open>processed_message_ids\<close> over all sequences of deliveries with pairwise
  distinct message ids to a new agent. For every \<open>N\<close>, the \<open>N + 1\<close> broadcasts
  \<open>numbered_broadcast 0, ..., numbered_broadcast N\<close> leave \<open>N + 1\<close> ids in the set.
\<close>

theorem processed_message_ids_unbounded:
  "\<not> (\<exists>N. \<forall>ops. (\<forall>op \<in> set ops. op_msg_id op \<noteq> None) \<and> distinct (map op_msg_id ops) \<longrightarrow>
         card (processed_message_ids (fst (run_agent (agent_init ''agent_1'' 0) ops))) \<le> N)"
proof
  assume "\<exists>N. \<forall>ops. (\<forall>op \<in> set ops. op_msg_id op \<noteq> None) \<and> distinct (map op_msg_id ops) \<longrightarrow>
         card (processed_message_ids (fst (run_agent (agent_init ''agent_1'' 0) ops))) \<le> N"
  then obtain N where bound:
    "\<And>ops. (\<forall>op \<in> set ops. op_msg_id op \<noteq> None) \<Longrightarrow> distinct (map op_msg_id ops) \<Longrightarrow>
         card (processed_message_ids (fst (run_agent (agent_init ''agent_1'' 0) ops))) \<le> N"
    by blast
  define es where "es = map numbered_broadcast [0..<Suc N]"
  define ops where "ops = map (\<lambda>e. DeliverBroadcast e 0) es"
  have ids: "map op_msg_id ops = map (\<lambda>k. Some (msg_id (numbered_broadcast k))) [0..<Suc N]"
    by (simp add: ops_def es_def)
  have inj: "inj (\<lambda>k. Some (msg_id (numbered_broadcast k)))"
    using numbered_broadcast_inj by (auto simp add: inj_def)
  have d: "distinct (map op_msg_id ops)"
    unfolding ids by (simp add: distinct_map inj_on_subset [OF inj] del: upt_Suc)
  have s: "\<forall>op \<in> set ops. op_msg_id op \<noteq> None"
    by (auto simp add: ops_def)
  have "\<forall>e \<in> set es. truthy (msg_id e) \<and> (\<exists>t. body e = TaskBroadcast t)"
    using numbered_broadcast_props by (auto simp add: es_def)
  then have "processed_message_ids (fst (run_agent (agent_init ''agent_1'' 0) ops)) =
      processed_message_ids (agent_init ''agent_1'' 0) \<union> set (map msg_id es)"
    unfolding ops_def by (rule run_broadcasts_ids)
  also have "\<dots> = (\<lambda>k. msg_id (numbered_broadcast k)) ` {0..<Suc N}"
    by (simp add: agent_init_def es_def image_image del: upt_Suc)
  finally have "card (processed_message_ids (fst (run_agent (agent_init ''agent_1'' 0) ops))) =
      Suc N"
    by (simp add: card_image inj_on_subset [OF numbered_broadcast_inj])
  with bound [OF s d] show False
    by simp
qed

text \<open>
  Claim C7, amended. \<^verbatim>\<open>processed_message_ids\<close> has no eviction: no sequence of
  deliveries, crashes and recoveries removes an id from it, and task broadcasts with
  non-empty message ids add exactly their ids, so that after \<open>n\<close> broadcasts with
  pairwise distinct ids a new agent holds \<open>n\<close> ids.
\<close>

theorem processed_message_ids_only_grow:
  assumes "\<forall>e \<in> set es. truthy (msg_id e) \<and> (\<exists>t. body e = TaskBroadcast t)"
    and "distinct (map msg_id es)"
  shows "processed_message_ids a \<subseteq> processed_message_ids (fst (run_agent a ops)) \<and>
         processed_message_ids (fst (run_agent a (map (\<lambda>e. DeliverBroadcast e r) es))) =
           processed_message_ids a \<union> set (map msg_id es) \<and>
         card (processed_message_ids
                 (fst (run_agent (agent_init aid now) (map (\<lambda>e. DeliverBroadcast e r) es)))) =
           length es"
proof (intro conjI)
  show "processed_message_ids a \<subseteq> processed_message_ids (fst (run_agent a ops))"
    by (rule run_agent_keeps_ids)
  show "processed_message_ids (fst (run_agent a (map (\<lambda>e. DeliverBroadcast e r) es))) =
           processed_message_ids a \<union> set (map msg_id es)"
    using assms(1) by (rule run_broadcasts_ids)
  have "processed_message_ids
          (fst (run_agent (agent_init aid now) (map (\<lambda>e. DeliverBroadcast e r) es))) =
        processed_message_ids (agent_init aid now) \<union> set (map msg_id es)"
    using assms(1) by (rule run_broadcasts_ids)
  then have "processed_message_ids
          (fst (run_agent (agent_init aid now) (map (\<lambda>e. DeliverBroadcast e r) es))) =
        set (map msg_id es)"
    by (simp add: agent_init_def)
  then show "card (processed_message_ids
                 (fst (run_agent (agent_init aid now) (map (\<lambda>e. DeliverBroadcast e r) es)))) =
           length es"
    using distinct_card [OF assms(2)] by simp
qed

theorem processed_message_ids_only_grow_witness:
  "truthy (msg_id (example_broadcast ''0'')) \<and> truthy (msg_id (example_broadcast ''1'')) \<and>
   body (example_broadcast ''0'') = TaskBroadcast (example_task ''0'') \<and>
   body (example_broadcast ''1'') = TaskBroadcast (example_task ''1'') \<and>
   distinct (map msg_id [example_broadcast ''0'', example_broadcast ''1'']) \<and>
   card (processed_message_ids
           (fst (run_agent (agent_init ''agent_1'' 0)
                   (map (\<lambda>e. DeliverBroadcast e 2)
                      [example_broadcast ''0'', example_broadcast ''1''])))) = 2"
proof -
  let ?es = "[example_broadcast ''0'', example_broadcast ''1'']"
  have t: "truthy (msg_id (example_broadcast ''0''))" "truthy (msg_id (example_broadcast ''1''))"
    by (simp_all add: example_broadcast_def truthy_def)
  have b: "body (example_broadcast ''0'') = TaskBroadcast (example_task ''0'')"
    "body (example_broadcast ''1'') = TaskBroadcast (example_task ''1'')"
    by (simp_all add: example_broadcast_def)
  have h1: "\<forall>e \<in> set ?es. truthy (msg_id e) \<and> (\<exists>t. body e = TaskBroadcast t)"
    using t b by simp
  have h2: "distinct (map msg_id ?es)"
    by (simp add: example_broadcast_def)
  note g = processed_message_ids_only_grow [OF h1 h2, of "agent_init ''agent_1'' 0" "[]" 2
      "''agent_1''" 0, THEN conjunct2, THEN conjunct2]
  have l: "length ?es = 2"
    by simp
  have c: "card (processed_message_ids
           (fst (run_agent (agent_init ''agent_1'' 0)
                   (map (\<lambda>e. DeliverBroadcast e 2) ?es)))) = 2"
    using g unfolding l .
  show ?thesis
    by (intro conjI t b h2 c)
qed

end
